theory Spec2Isabelle
  imports Main "HOL-Library.Sublist"
begin

section \<open>The portfolio-recommendation dialog handler (Lambda/lambda_function.py)\<close>

text \<open>
  The handler receives one Lex event (a JSON object) and returns one dialog-action
  response (a JSON object) or raises. Python strings are modelled as \<open>string\<close>, every
  \<open>char\<close> standing for one code point below 256; dictionaries are maps; a raised exception
  is the \<open>Inl\<close> side of a sum.
\<close>

subsection \<open>Data\<close>

text \<open>The exceptions that leave the handler. \<open>KeyError\<close> carries the missing key,
  \<open>AttributeError\<close> is \<open>None.lower()\<close>, \<open>Exception\<close> carries the text built by dispatch.\<close>

datatype error = KeyError string | AttributeError | Exception string

text \<open>What \<open>parse_int\<close> returns: a Python int, or the float \<open>nan\<close>.\<close>

datatype num = IntV int | NaN

text \<open>JSON values as they occur in the responses: \<open>None\<close>, a string, the session
  attributes, the slots dictionary, and a dictionary of further values.\<close>

datatype jval =
    JNull
  | JStr string
  | JAttrs "string \<rightharpoonup> string"
  | JSlots "string \<rightharpoonup> string option"
  | JObj "string \<rightharpoonup> jval"

type_synonym response = "string \<rightharpoonup> jval"

record current_intent =
  name :: string
  slots :: "string \<rightharpoonup> string option"

record event =
  currentIntent :: current_intent
  invocationSource :: string
  sessionAttributes :: "string \<rightharpoonup> string"

text \<open>The dictionary of \<open>build_validation_result\<close>: the key \<open>message\<close> is absent
  (\<open>None\<close> here) when no message content is given; \<open>violatedSlot\<close> is always a key, its
  value may be Python's \<open>None\<close>.\<close>

record validation_result =
  isValid :: bool
  violatedSlot :: "string option"
  message :: "jval option"

subsection \<open>Python primitives the handler relies on\<close>

text \<open>\<open>d[k]\<close> on a dictionary.\<close>

definition get_item :: "(string \<rightharpoonup> 'v) \<Rightarrow> string \<Rightarrow> error + 'v" where
  "get_item d k = (case d k of None \<Rightarrow> Inl (KeyError k) | Some v \<Rightarrow> Inr v)"

text \<open>\<open>str.lower\<close> on code points below 256: A-Z and the Latin-1 capitals
  (192-222 without the multiplication sign 215) move up by 32.\<close>

definition lower_char :: "char \<Rightarrow> char" where
  "lower_char c =
     (let n = (of_char c :: nat)
      in if (65 \<le> n \<and> n \<le> 90) \<or> (192 \<le> n \<and> n \<le> 222 \<and> n \<noteq> 215)
         then char_of (n + 32) else c)"

definition lower :: "string \<Rightarrow> string" where
  "lower s = map lower_char s"

text \<open>\<open>int(s)\<close> on a string, base 10: surrounding whitespace is dropped (tab to carriage
  return, space, and below 256 also NEL 133 and the no-break space 160), one sign is allowed,
  then decimal digits, with single underscores between digits only. Anything else is a
  \<open>ValueError\<close>, here \<open>None\<close>; so is a literal of more than 4300 digits (CPython's default
  \<open>int_max_str_digits\<close>; leading zeros count, underscores, sign and whitespace do not).\<close>

definition is_space :: "char \<Rightarrow> bool" where
  "is_space c =
     (let n = (of_char c :: nat)
      in (9 \<le> n \<and> n \<le> 13) \<or> n = 32 \<or> n = 133 \<or> n = 160)"

definition is_digit :: "char \<Rightarrow> bool" where
  "is_digit c = (let n = (of_char c :: nat) in 48 \<le> n \<and> n \<le> 57)"

definition digit_val :: "char \<Rightarrow> int" where
  "digit_val c = int (of_char c) - 48"

definition strip :: "string \<Rightarrow> string" where
  "strip s = rev (dropWhile is_space (rev (dropWhile is_space s)))"

fun digits :: "int \<Rightarrow> bool \<Rightarrow> string \<Rightarrow> int option" where
  "digits acc prev [] = (if prev then Some acc else None)"
| "digits acc prev (c # cs) =
     (if is_digit c then digits (10 * acc + digit_val c) True cs
      else if c = CHR ''_'' \<and> prev then digits acc False cs
      else None)"

definition int_max_str_digits :: nat where
  "int_max_str_digits = 4300"

definition digit_string :: "string \<Rightarrow> int option" where
  "digit_string cs =
     (if length (filter is_digit cs) > int_max_str_digits then None
      else digits 0 False cs)"

definition py_int :: "string \<Rightarrow> int option" where
  "py_int s =
     (case strip s of
        [] \<Rightarrow> None
      | c # cs \<Rightarrow>
          if c = CHR ''-'' then map_option uminus (digit_string cs)
          else if c = CHR ''+'' then digit_string cs
          else digit_string (c # cs))"

text \<open>Comparisons of an int-or-nan with an int literal: every comparison with \<open>nan\<close>
  is false.\<close>

fun num_lt :: "num \<Rightarrow> int \<Rightarrow> bool" where
  "num_lt (IntV i) k = (i < k)"
| "num_lt NaN k = False"

fun num_gt :: "num \<Rightarrow> int \<Rightarrow> bool" where
  "num_gt (IntV i) k = (i > k)"
| "num_gt NaN k = False"

fun num_le :: "num \<Rightarrow> int \<Rightarrow> bool" where
  "num_le (IntV i) k = (i \<le> k)"
| "num_le NaN k = False"

subsection \<open>Functionality helper functions\<close>

definition parse_int :: "string \<Rightarrow> num" where
  "parse_int n = (case py_int n of Some i \<Rightarrow> IntV i | None \<Rightarrow> NaN)"

definition plain_text :: "string \<Rightarrow> jval" where
  "plain_text content =
     JObj [''contentType'' \<mapsto> JStr ''PlainText'', ''content'' \<mapsto> JStr content]"

definition build_validation_result :: "bool \<Rightarrow> string option \<Rightarrow> string option \<Rightarrow> validation_result" where
  "build_validation_result is_valid violated_slot message_content =
     (case message_content of
        None \<Rightarrow> \<lparr>isValid = is_valid, violatedSlot = violated_slot, message = None\<rparr>
      | Some content \<Rightarrow>
          \<lparr>isValid = is_valid, violatedSlot = violated_slot,
           message = Some (plain_text content)\<rparr>)"

definition invalid_age_message :: string where
  "invalid_age_message = ''This is not a valid age, please provide a different age.''"

definition retirement_message :: string where
  "retirement_message =
     ''Sorry, you are already at retirement age! I cannot recommend a portfolio.''"

definition minimum_amount_message :: string where
  "minimum_amount_message =
     ''Your investment amount must be greater than or equal to $5000, please provide a different investment amount.''"

text \<open>The two \<open>if \<dots> is not None\<close> blocks in order; \<open>rest\<close> is the code from the second
  block on, reached when the first block does not return.\<close>

definition validate_data :: "string option \<Rightarrow> string option \<Rightarrow> event \<Rightarrow> validation_result" where
  "validate_data age investment_amount intent_request =
     (let rest =
        (case investment_amount of
           None \<Rightarrow> build_validation_result True None None
         | Some i \<Rightarrow>
             let investment_amount = parse_int i
             in if num_le investment_amount 4999
                then build_validation_result False (Some ''investmentAmount'')
                       (Some minimum_amount_message)
                else build_validation_result True None None)
      in case age of
           None \<Rightarrow> rest
         | Some a \<Rightarrow>
             let age = parse_int a
             in if num_lt age 0
                then build_validation_result False (Some ''age'') (Some invalid_age_message)
                else if num_gt age 65
                then build_validation_result False (Some ''age'') (Some retirement_message)
                else rest)"

definition risk_levels :: "string \<rightharpoonup> string" where
  "risk_levels =
     [''none'' \<mapsto> ''100% bonds (AGG), 0% equities (SPY)'',
      ''low'' \<mapsto> ''60% bonds (AGG), 40% equities (SPY)'',
      ''medium'' \<mapsto> ''40% bonds (AGG), 60% equities (SPY)'',
      ''high'' \<mapsto> ''20% bonds (AGG), 80% equities (SPY)'']"

definition get_risks :: "string \<Rightarrow> error + string" where
  "get_risks risk_level = get_item risk_levels risk_level"

subsection \<open>Dialog-action helper functions\<close>

definition get_slots :: "event \<Rightarrow> (string \<rightharpoonup> string option)" where
  "get_slots intent_request = slots (currentIntent intent_request)"

definition opt_str :: "string option \<Rightarrow> jval" where
  "opt_str v = (case v of None \<Rightarrow> JNull | Some s \<Rightarrow> JStr s)"

definition elicit_slot ::
  "(string \<rightharpoonup> string) \<Rightarrow> string \<Rightarrow> (string \<rightharpoonup> string option) \<Rightarrow> string option \<Rightarrow> jval \<Rightarrow> response" where
  "elicit_slot session_attributes intent_name slots_arg slot_to_elicit message_arg =
     [''sessionAttributes'' \<mapsto> JAttrs session_attributes,
      ''dialogAction'' \<mapsto>
        JObj [''type'' \<mapsto> JStr ''ElicitSlot'',
              ''intentName'' \<mapsto> JStr intent_name,
              ''slots'' \<mapsto> JSlots slots_arg,
              ''slotToElicit'' \<mapsto> opt_str slot_to_elicit,
              ''message'' \<mapsto> message_arg]]"

definition delegate :: "(string \<rightharpoonup> string) \<Rightarrow> (string \<rightharpoonup> string option) \<Rightarrow> response" where
  "delegate session_attributes slots_arg =
     [''sessionAttributes'' \<mapsto> JAttrs session_attributes,
      ''dialogAction'' \<mapsto> JObj [''type'' \<mapsto> JStr ''Delegate'', ''slots'' \<mapsto> JSlots slots_arg]]"

definition close :: "(string \<rightharpoonup> string) \<Rightarrow> string \<Rightarrow> jval \<Rightarrow> response" where
  "close session_attributes fulfillment_state message_arg =
     [''sessionAttributes'' \<mapsto> JAttrs session_attributes,
      ''dialogAction'' \<mapsto>
        JObj [''type'' \<mapsto> JStr ''Close'',
              ''fulfillmentState'' \<mapsto> JStr fulfillment_state,
              ''message'' \<mapsto> message_arg]]"

subsection \<open>Intent handler, dispatcher, entry point\<close>

text \<open>The four slot reads come first and raise \<open>KeyError\<close> in source order. In the
  validation stage the violated slot is overwritten with \<open>None\<close> in the slots dictionary
  (a violated slot of \<open>None\<close> would add a \<open>None\<close> key, which no string key sees), and
  \<open>validation_result["message"]\<close> is a dictionary read. In the fulfillment stage
  \<open>risk_level.lower()\<close> raises on \<open>None\<close>.\<close>

definition recommend_portfolio :: "event \<Rightarrow> error + response" where
  "recommend_portfolio intent_request =
     (case get_item (get_slots intent_request) ''firstName'' of
        Inl e \<Rightarrow> Inl e
      | Inr first_name \<Rightarrow>
     (case get_item (get_slots intent_request) ''age'' of
        Inl e \<Rightarrow> Inl e
      | Inr age \<Rightarrow>
     (case get_item (get_slots intent_request) ''investmentAmount'' of
        Inl e \<Rightarrow> Inl e
      | Inr investment_amount \<Rightarrow>
     (case get_item (get_slots intent_request) ''riskLevel'' of
        Inl e \<Rightarrow> Inl e
      | Inr risk_level \<Rightarrow>
     (let source = invocationSource intent_request
      in if source = ''DialogCodeHook''
         then
           (let slots_d = get_slots intent_request;
                validation_result = validate_data age investment_amount intent_request
            in if \<not> isValid validation_result
               then
                 (let slots_d =
                        (case violatedSlot validation_result of
                           Some v \<Rightarrow> slots_d(v \<mapsto> None)
                         | None \<Rightarrow> slots_d)
                  in case message validation_result of
                       None \<Rightarrow> Inl (KeyError ''message'')
                     | Some m \<Rightarrow>
                         Inr (elicit_slot (sessionAttributes intent_request)
                                (name (currentIntent intent_request))
                                slots_d
                                (violatedSlot validation_result)
                                m))
               else
                 (let output_session_attributes = sessionAttributes intent_request
                  in Inr (delegate output_session_attributes (get_slots intent_request))))
         else
           (case risk_level of
              None \<Rightarrow> Inl AttributeError
            | Some rl \<Rightarrow>
                (case get_risks (lower rl) of
                   Inl e \<Rightarrow> Inl e
                 | Inr desired_risk \<Rightarrow>
                     Inr (close (sessionAttributes intent_request) ''Fulfilled''
                            (plain_text
                               (''For a '' @ rl @ ''-risk portfolio, invest in '' @ desired_risk))))))))))"

definition dispatch :: "event \<Rightarrow> error + response" where
  "dispatch intent_request =
     (let intent_name = name (currentIntent intent_request)
      in if intent_name = ''recommendPortfolio''
         then recommend_portfolio intent_request
         else Inl (Exception (''Intent with name '' @ intent_name @ '' not supported'')))"

definition lambda_handler :: "event \<Rightarrow> 'c \<Rightarrow> error + response" where
  "lambda_handler ev context = dispatch ev"

subsection \<open>Predicates used to state the properties\<close>

text \<open>The event carries the four slots the handler reads (a slot that is not filled yet
  is a key with value \<open>None\<close>).\<close>

definition slots_present :: "event \<Rightarrow> bool" where
  "slots_present ev =
     ({''firstName'', ''age'', ''investmentAmount'', ''riskLevel''} \<subseteq> dom (get_slots ev))"

text \<open>A slot value passes the age rules when it is null or its parsed value is neither
  below 0 nor above 65; it passes the amount rule when it is null or its parsed value is not
  at most 4999.\<close>

definition passes_age_rules :: "string option \<Rightarrow> bool" where
  "passes_age_rules age =
     (case age of
        None \<Rightarrow> True
      | Some a \<Rightarrow> \<not> num_lt (parse_int a) 0 \<and> \<not> num_gt (parse_int a) 65)"

definition passes_amount_rule :: "string option \<Rightarrow> bool" where
  "passes_amount_rule investment_amount =
     (case investment_amount of
        None \<Rightarrow> True
      | Some i \<Rightarrow> \<not> num_le (parse_int i) 4999)"

text \<open>Example events: a request of the intent with the given slots dictionary.\<close>

definition request :: "string \<Rightarrow> (string \<rightharpoonup> string option) \<Rightarrow> event" where
  "request source slots_arg =
     \<lparr>currentIntent = \<lparr>name = ''recommendPortfolio'', slots = slots_arg\<rparr>,
      invocationSource = source,
      sessionAttributes = [''channel'' \<mapsto> ''web'']\<rparr>"

definition four_slots ::
  "string option \<Rightarrow> string option \<Rightarrow> string option \<Rightarrow> (string \<rightharpoonup> string option)" where
  "four_slots age investment_amount risk_level =
     [''firstName'' \<mapsto> Some ''Ann'', ''age'' \<mapsto> age,
      ''investmentAmount'' \<mapsto> investment_amount, ''riskLevel'' \<mapsto> risk_level]"

text \<open>A literal of 4301 digits, one more than \<open>int\<close> accepts.\<close>

definition long_digit_string :: string where
  "long_digit_string = replicate 4301 (CHR ''7'')"

section \<open>Properties\<close>

subsection \<open>Auxiliary facts\<close>

lemma slots_presentD:
  assumes "slots_present ev"
  obtains f a i r where
    "get_slots ev ''firstName'' = Some f" "get_slots ev ''age'' = Some a"
    "get_slots ev ''investmentAmount'' = Some i" "get_slots ev ''riskLevel'' = Some r"
  using assms unfolding slots_present_def by (auto simp: dom_def)

lemma validate_data_age_low:
  "num_lt (parse_int a) 0 \<Longrightarrow>
   validate_data (Some a) i ev =
     \<lparr>isValid = False, violatedSlot = Some ''age'',
      message = Some (plain_text invalid_age_message)\<rparr>"
  by (simp add: validate_data_def build_validation_result_def Let_def)

lemma validate_data_age_high:
  "\<not> num_lt (parse_int a) 0 \<Longrightarrow> num_gt (parse_int a) 65 \<Longrightarrow>
   validate_data (Some a) i ev =
     \<lparr>isValid = False, violatedSlot = Some ''age'',
      message = Some (plain_text retirement_message)\<rparr>"
  by (simp add: validate_data_def build_validation_result_def Let_def)

lemma validate_data_age_pass:
  "passes_age_rules age \<Longrightarrow> validate_data age i ev = validate_data None i ev"
  by (cases age) (simp_all add: validate_data_def passes_age_rules_def Let_def)

lemma validate_data_amount_low:
  "passes_age_rules age \<Longrightarrow> num_le (parse_int i) 4999 \<Longrightarrow>
   validate_data age (Some i) ev =
     \<lparr>isValid = False, violatedSlot = Some ''investmentAmount'',
      message = Some (plain_text minimum_amount_message)\<rparr>"
  by (simp add: validate_data_age_pass)
     (simp add: validate_data_def build_validation_result_def Let_def)

lemma validate_data_valid:
  "passes_age_rules age \<Longrightarrow> passes_amount_rule i \<Longrightarrow>
   validate_data age i ev = \<lparr>isValid = True, violatedSlot = None, message = None\<rparr>"
  by (simp add: validate_data_age_pass)
     (cases i; simp add: validate_data_def build_validation_result_def Let_def
        passes_amount_rule_def)

lemma validate_data_isValid:
  "isValid (validate_data age i ev) \<longleftrightarrow> passes_age_rules age \<and> passes_amount_rule i"
  by (cases age; cases i)
     (simp_all add: validate_data_def build_validation_result_def Let_def
        passes_age_rules_def passes_amount_rule_def)

lemma recommend_portfolio_invalid:
  assumes "invocationSource ev = ''DialogCodeHook''"
    and "get_slots ev ''firstName'' = Some f" and "get_slots ev ''age'' = Some a"
    and "get_slots ev ''investmentAmount'' = Some i" and "get_slots ev ''riskLevel'' = Some r"
    and "validate_data a i ev = \<lparr>isValid = False, violatedSlot = Some v, message = Some m\<rparr>"
  shows "recommend_portfolio ev =
     Inr [''sessionAttributes'' \<mapsto> JAttrs (sessionAttributes ev),
          ''dialogAction'' \<mapsto>
            JObj [''type'' \<mapsto> JStr ''ElicitSlot'',
                  ''intentName'' \<mapsto> JStr (name (currentIntent ev)),
                  ''slots'' \<mapsto> JSlots ((get_slots ev)(v \<mapsto> None)),
                  ''slotToElicit'' \<mapsto> JStr v,
                  ''message'' \<mapsto> m]]"
  using assms
  by (simp add: recommend_portfolio_def get_item_def elicit_slot_def opt_str_def Let_def)

lemma recommend_portfolio_valid:
  assumes "invocationSource ev = ''DialogCodeHook''"
    and "get_slots ev ''firstName'' = Some f" and "get_slots ev ''age'' = Some a"
    and "get_slots ev ''investmentAmount'' = Some i" and "get_slots ev ''riskLevel'' = Some r"
    and "isValid (validate_data a i ev)"
  shows "recommend_portfolio ev =
     Inr [''sessionAttributes'' \<mapsto> JAttrs (sessionAttributes ev),
          ''dialogAction'' \<mapsto>
            JObj [''type'' \<mapsto> JStr ''Delegate'', ''slots'' \<mapsto> JSlots (get_slots ev)]]"
  using assms
  by (simp add: recommend_portfolio_def get_item_def delegate_def Let_def)

text \<open>Evaluating the example events and the parser on literals.\<close>

lemmas parse_simps =
  parse_int_def py_int_def digit_string_def int_max_str_digits_def strip_def
  is_space_def is_digit_def digit_val_def

lemma request_simps:
  "invocationSource (request src sl) = src"
  "get_slots (request src sl) = sl"
  "slots (currentIntent (request src sl)) = sl"
  "name (currentIntent (request src sl)) = ''recommendPortfolio''"
  "sessionAttributes (request src sl) = [''channel'' \<mapsto> ''web'']"
  by (simp_all add: request_def get_slots_def)

lemma slots_present_four_slots: "slots_present (request src (four_slots a i r))"
  by (simp add: slots_present_def request_simps four_slots_def)

lemma four_slots_simps:
  "four_slots a i r ''firstName'' = Some (Some ''Ann'')"
  "four_slots a i r ''age'' = Some a"
  "four_slots a i r ''investmentAmount'' = Some i"
  "four_slots a i r ''riskLevel'' = Some r"
  by (simp_all add: four_slots_def)

subsection \<open>The age rules\<close>

text \<open>
  C1. In the validation stage (\<open>invocationSource = "DialogCodeHook"\<close>), for a request that
  carries the four slots of the intent and whose age slot is a string that parses to the
  integer \<open>n\<close>: if \<open>n < 0\<close> the handler returns the ElicitSlot response for slot \<open>age\<close> with
  the invalid-age message; if \<open>n > 65\<close> it returns the ElicitSlot response for slot \<open>age\<close>
  with the retirement message; if \<open>0 \<le> n \<le> 65\<close> the age passes the age rules: validation
  gives the result it gives for a null age and never reports \<open>age\<close> as violated.
\<close>

theorem age_rule:
  assumes "invocationSource ev = ''DialogCodeHook''"
    and "slots_present ev"
    and "get_slots ev ''age'' = Some (Some a)"
    and "parse_int a = IntV n"
  shows "(n < 0 \<longrightarrow>
            recommend_portfolio ev =
              Inr [''sessionAttributes'' \<mapsto> JAttrs (sessionAttributes ev),
                   ''dialogAction'' \<mapsto>
                     JObj [''type'' \<mapsto> JStr ''ElicitSlot'',
                           ''intentName'' \<mapsto> JStr (name (currentIntent ev)),
                           ''slots'' \<mapsto> JSlots ((get_slots ev)(''age'' \<mapsto> None)),
                           ''slotToElicit'' \<mapsto> JStr ''age'',
                           ''message'' \<mapsto>
                             JObj [''contentType'' \<mapsto> JStr ''PlainText'',
                                   ''content'' \<mapsto>
                                     JStr ''This is not a valid age, please provide a different age.'']]])
       \<and> (65 < n \<longrightarrow>
            recommend_portfolio ev =
              Inr [''sessionAttributes'' \<mapsto> JAttrs (sessionAttributes ev),
                   ''dialogAction'' \<mapsto>
                     JObj [''type'' \<mapsto> JStr ''ElicitSlot'',
                           ''intentName'' \<mapsto> JStr (name (currentIntent ev)),
                           ''slots'' \<mapsto> JSlots ((get_slots ev)(''age'' \<mapsto> None)),
                           ''slotToElicit'' \<mapsto> JStr ''age'',
                           ''message'' \<mapsto>
                             JObj [''contentType'' \<mapsto> JStr ''PlainText'',
                                   ''content'' \<mapsto>
                                     JStr ''Sorry, you are already at retirement age! I cannot recommend a portfolio.'']]])
       \<and> (0 \<le> n \<and> n \<le> 65 \<longrightarrow>
            passes_age_rules (Some a)
            \<and> (\<forall>i. validate_data (Some a) i ev = validate_data None i ev
                   \<and> violatedSlot (validate_data (Some a) i ev) \<noteq> Some ''age''))"
proof -
  from assms(2) obtain f a' i r where
    sl: "get_slots ev ''firstName'' = Some f" "get_slots ev ''age'' = Some a'"
      "get_slots ev ''investmentAmount'' = Some i" "get_slots ev ''riskLevel'' = Some r"
    by (rule slots_presentD)
  have low: "recommend_portfolio ev =
              Inr [''sessionAttributes'' \<mapsto> JAttrs (sessionAttributes ev),
                   ''dialogAction'' \<mapsto>
                     JObj [''type'' \<mapsto> JStr ''ElicitSlot'',
                           ''intentName'' \<mapsto> JStr (name (currentIntent ev)),
                           ''slots'' \<mapsto> JSlots ((get_slots ev)(''age'' \<mapsto> None)),
                           ''slotToElicit'' \<mapsto> JStr ''age'',
                           ''message'' \<mapsto> plain_text invalid_age_message]]" if "n < 0"
  proof -
    from that assms(4) have "num_lt (parse_int a) 0" by simp
    from recommend_portfolio_invalid [OF assms(1) sl(1) assms(3) sl(3,4) validate_data_age_low [OF this]]
    show ?thesis .
  qed
  have high: "recommend_portfolio ev =
              Inr [''sessionAttributes'' \<mapsto> JAttrs (sessionAttributes ev),
                   ''dialogAction'' \<mapsto>
                     JObj [''type'' \<mapsto> JStr ''ElicitSlot'',
                           ''intentName'' \<mapsto> JStr (name (currentIntent ev)),
                           ''slots'' \<mapsto> JSlots ((get_slots ev)(''age'' \<mapsto> None)),
                           ''slotToElicit'' \<mapsto> JStr ''age'',
                           ''message'' \<mapsto> plain_text retirement_message]]" if "65 < n"
  proof -
    from that assms(4) have "\<not> num_lt (parse_int a) 0" "num_gt (parse_int a) 65" by simp_all
    from recommend_portfolio_invalid [OF assms(1) sl(1) assms(3) sl(3,4) validate_data_age_high [OF this]]
    show ?thesis .
  qed
  have mid: "passes_age_rules (Some a)
            \<and> (\<forall>i. validate_data (Some a) i ev = validate_data None i ev
                   \<and> violatedSlot (validate_data (Some a) i ev) \<noteq> Some ''age'')" if "0 \<le> n \<and> n \<le> 65"
  proof -
    from that assms(4) have p: "passes_age_rules (Some a)" by (simp add: passes_age_rules_def)
    have "violatedSlot (validate_data None i ev) \<noteq> Some ''age''" for i
      by (cases i) (simp_all add: validate_data_def build_validation_result_def Let_def)
    with p show ?thesis by (simp add: validate_data_age_pass)
  qed
  from low high mid show ?thesis
    unfolding plain_text_def invalid_age_message_def retirement_message_def by blast
qed

theorem age_rule_witness:
  "recommend_portfolio (request ''DialogCodeHook'' (four_slots (Some ''-1'') (Some ''5000'') (Some ''low''))) =
     Inr [''sessionAttributes'' \<mapsto> JAttrs [''channel'' \<mapsto> ''web''],
          ''dialogAction'' \<mapsto>
            JObj [''type'' \<mapsto> JStr ''ElicitSlot'',
                  ''intentName'' \<mapsto> JStr ''recommendPortfolio'',
                  ''slots'' \<mapsto> JSlots ((four_slots (Some ''-1'') (Some ''5000'') (Some ''low''))(''age'' \<mapsto> None)),
                  ''slotToElicit'' \<mapsto> JStr ''age'',
                  ''message'' \<mapsto>
                    JObj [''contentType'' \<mapsto> JStr ''PlainText'',
                          ''content'' \<mapsto>
                            JStr ''This is not a valid age, please provide a different age.'']]]
   \<and> recommend_portfolio (request ''DialogCodeHook'' (four_slots (Some ''70'') None (Some ''low''))) =
     Inr [''sessionAttributes'' \<mapsto> JAttrs [''channel'' \<mapsto> ''web''],
          ''dialogAction'' \<mapsto>
            JObj [''type'' \<mapsto> JStr ''ElicitSlot'',
                  ''intentName'' \<mapsto> JStr ''recommendPortfolio'',
                  ''slots'' \<mapsto> JSlots ((four_slots (Some ''70'') None (Some ''low''))(''age'' \<mapsto> None)),
                  ''slotToElicit'' \<mapsto> JStr ''age'',
                  ''message'' \<mapsto>
                    JObj [''contentType'' \<mapsto> JStr ''PlainText'',
                          ''content'' \<mapsto>
                            JStr ''Sorry, you are already at retirement age! I cannot recommend a portfolio.'']]]
   \<and> validate_data (Some ''65'') (Some ''100'') (request ''DialogCodeHook'' (four_slots (Some ''65'') (Some ''100'') None))
       = validate_data None (Some ''100'') (request ''DialogCodeHook'' (four_slots (Some ''65'') (Some ''100'') None))"
proof -
  have p1: "parse_int ''-1'' = IntV (-1)" and p2: "parse_int ''70'' = IntV 70"
    and p3: "parse_int ''65'' = IntV 65"
    by (simp_all add: parse_simps)
  show ?thesis
    using
      age_rule [of "request ''DialogCodeHook'' (four_slots (Some ''-1'') (Some ''5000'') (Some ''low''))" "''-1''" "-1"]
      age_rule [of "request ''DialogCodeHook'' (four_slots (Some ''70'') None (Some ''low''))" "''70''" 70]
      age_rule [of "request ''DialogCodeHook'' (four_slots (Some ''65'') (Some ''100'') None)" "''65''" 65]
      p1 p2 p3
    by (simp add: request_simps slots_present_four_slots four_slots_simps)
qed

subsection \<open>The investment-amount rule\<close>

text \<open>
  C2. In the validation stage, for a request that carries the four slots of the intent, whose
  age slot passes the age rules and whose investmentAmount slot is a string that parses to
  the integer \<open>m\<close>: if \<open>m \<le> 4999\<close> the handler returns the ElicitSlot response for slot
  \<open>investmentAmount\<close> with the minimum-amount message; if \<open>m \<ge> 5000\<close> the amount passes
  the rule and validation succeeds.
\<close>

theorem amount_rule:
  assumes "invocationSource ev = ''DialogCodeHook''"
    and "slots_present ev"
    and "get_slots ev ''age'' = Some age"
    and "passes_age_rules age"
    and "get_slots ev ''investmentAmount'' = Some (Some i)"
    and "parse_int i = IntV m"
  shows "(m \<le> 4999 \<longrightarrow>
            recommend_portfolio ev =
              Inr [''sessionAttributes'' \<mapsto> JAttrs (sessionAttributes ev),
                   ''dialogAction'' \<mapsto>
                     JObj [''type'' \<mapsto> JStr ''ElicitSlot'',
                           ''intentName'' \<mapsto> JStr (name (currentIntent ev)),
                           ''slots'' \<mapsto> JSlots ((get_slots ev)(''investmentAmount'' \<mapsto> None)),
                           ''slotToElicit'' \<mapsto> JStr ''investmentAmount'',
                           ''message'' \<mapsto>
                             JObj [''contentType'' \<mapsto> JStr ''PlainText'',
                                   ''content'' \<mapsto>
                                     JStr ''Your investment amount must be greater than or equal to $5000, please provide a different investment amount.'']]])
       \<and> (5000 \<le> m \<longrightarrow>
            passes_amount_rule (Some i)
            \<and> validate_data age (Some i) ev =
                \<lparr>isValid = True, violatedSlot = None, message = None\<rparr>)"
proof -
  from assms(2) obtain f r where
    sl: "get_slots ev ''firstName'' = Some f" "get_slots ev ''riskLevel'' = Some r"
    by (rule slots_presentD)
  have low: "recommend_portfolio ev =
              Inr [''sessionAttributes'' \<mapsto> JAttrs (sessionAttributes ev),
                   ''dialogAction'' \<mapsto>
                     JObj [''type'' \<mapsto> JStr ''ElicitSlot'',
                           ''intentName'' \<mapsto> JStr (name (currentIntent ev)),
                           ''slots'' \<mapsto> JSlots ((get_slots ev)(''investmentAmount'' \<mapsto> None)),
                           ''slotToElicit'' \<mapsto> JStr ''investmentAmount'',
                           ''message'' \<mapsto> plain_text minimum_amount_message]]"
    if "m \<le> 4999"
  proof -
    from that assms(6) have "num_le (parse_int i) 4999" by simp
    from recommend_portfolio_invalid
      [OF assms(1) sl(1) assms(3) assms(5) sl(2) validate_data_amount_low [OF assms(4) this]]
    show ?thesis .
  qed
  have high: "passes_amount_rule (Some i)
            \<and> validate_data age (Some i) ev =
                \<lparr>isValid = True, violatedSlot = None, message = None\<rparr>"
    if "5000 \<le> m"
  proof -
    from that assms(6) have p: "passes_amount_rule (Some i)"
      by (simp add: passes_amount_rule_def)
    with validate_data_valid [OF assms(4) p] show ?thesis by simp
  qed
  from low high show ?thesis
    unfolding plain_text_def minimum_amount_message_def by blast
qed

theorem amount_rule_witness:
  "recommend_portfolio
     (request ''DialogCodeHook'' (four_slots (Some ''30'') (Some ''4999'') (Some ''low''))) =
     Inr [''sessionAttributes'' \<mapsto> JAttrs [''channel'' \<mapsto> ''web''],
          ''dialogAction'' \<mapsto>
            JObj [''type'' \<mapsto> JStr ''ElicitSlot'',
                  ''intentName'' \<mapsto> JStr ''recommendPortfolio'',
                  ''slots'' \<mapsto>
                    JSlots ((four_slots (Some ''30'') (Some ''4999'') (Some ''low''))
                              (''investmentAmount'' \<mapsto> None)),
                  ''slotToElicit'' \<mapsto> JStr ''investmentAmount'',
                  ''message'' \<mapsto>
                    JObj [''contentType'' \<mapsto> JStr ''PlainText'',
                          ''content'' \<mapsto>
                            JStr ''Your investment amount must be greater than or equal to $5000, please provide a different investment amount.'']]]
   \<and> validate_data None (Some ''5000'')
        (request ''DialogCodeHook'' (four_slots None (Some ''5000'') None)) =
       \<lparr>isValid = True, violatedSlot = None, message = None\<rparr>"
proof -
  have p1: "parse_int ''4999'' = IntV 4999" and p2: "parse_int ''5000'' = IntV 5000"
    and p3: "passes_age_rules (Some ''30'')" and p4: "passes_age_rules None"
    by (simp_all add: parse_simps passes_age_rules_def)
  show ?thesis
    using
      amount_rule [of "request ''DialogCodeHook'' (four_slots (Some ''30'') (Some ''4999'') (Some ''low''))"
        "Some ''30''" "''4999''" 4999]
      amount_rule [of "request ''DialogCodeHook'' (four_slots None (Some ''5000'') None)"
        None "''5000''" 5000]
      p1 p2 p3 p4
    by (simp add: request_simps slots_present_four_slots four_slots_simps)
qed

subsection \<open>Delegation when validation succeeds\<close>

text \<open>
  C4. In the validation stage, for a request that carries the four slots of the intent and
  in which both the age slot and the investmentAmount slot pass validation (a null slot
  passes), the handler returns the Delegate response whose slots are the slots mapping of the
  request and whose session attributes are those of the request, both unchanged.
\<close>

theorem delegate_on_valid:
  assumes "invocationSource ev = ''DialogCodeHook''"
    and "slots_present ev"
    and "get_slots ev ''age'' = Some age"
    and "get_slots ev ''investmentAmount'' = Some investment_amount"
    and "passes_age_rules age"
    and "passes_amount_rule investment_amount"
  shows "recommend_portfolio ev =
           Inr [''sessionAttributes'' \<mapsto> JAttrs (sessionAttributes ev),
                ''dialogAction'' \<mapsto>
                  JObj [''type'' \<mapsto> JStr ''Delegate'',
                        ''slots'' \<mapsto> JSlots (slots (currentIntent ev))]]"
proof -
  from assms(2) obtain f r where
    sl: "get_slots ev ''firstName'' = Some f" "get_slots ev ''riskLevel'' = Some r"
    by (rule slots_presentD)
  from assms(5,6) have "isValid (validate_data age investment_amount ev)"
    by (simp add: validate_data_isValid)
  from recommend_portfolio_valid [OF assms(1) sl(1) assms(3) assms(4) sl(2) this]
  show ?thesis by (simp add: get_slots_def)
qed

theorem delegate_on_valid_witness:
  "recommend_portfolio
     (request ''DialogCodeHook'' (four_slots (Some ''30'') (Some ''5000'') None)) =
     Inr [''sessionAttributes'' \<mapsto> JAttrs [''channel'' \<mapsto> ''web''],
          ''dialogAction'' \<mapsto>
            JObj [''type'' \<mapsto> JStr ''Delegate'',
                  ''slots'' \<mapsto> JSlots (four_slots (Some ''30'') (Some ''5000'') None)]]
   \<and> recommend_portfolio
     (request ''DialogCodeHook'' (four_slots None None None)) =
     Inr [''sessionAttributes'' \<mapsto> JAttrs [''channel'' \<mapsto> ''web''],
          ''dialogAction'' \<mapsto>
            JObj [''type'' \<mapsto> JStr ''Delegate'',
                  ''slots'' \<mapsto> JSlots (four_slots None None None)]]"
proof -
  have p: "passes_age_rules (Some ''30'')" "passes_amount_rule (Some ''5000'')"
    "passes_age_rules None" "passes_amount_rule None"
    by (simp_all add: parse_simps passes_age_rules_def passes_amount_rule_def)
  show ?thesis
    using
      delegate_on_valid [of "request ''DialogCodeHook'' (four_slots (Some ''30'') (Some ''5000'') None)"
        "Some ''30''" "Some ''5000''"]
      delegate_on_valid [of "request ''DialogCodeHook'' (four_slots None None None)" None None]
      p
    by (simp add: request_simps slots_present_four_slots four_slots_simps)
qed

subsection \<open>Re-eliciting the violated slot\<close>

text \<open>
  C5. In the validation stage, for a request that carries the four slots of the intent and
  on which validation fails, the validation result names a violated slot \<open>v\<close> and a message
  \<open>m\<close>, and the handler returns the ElicitSlot response in which \<open>slotToElicit\<close> is \<open>v\<close>,
  the message is \<open>m\<close>, and the slots mapping is that of the request with \<open>v\<close> set to null
  and every other entry unchanged.
\<close>

theorem elicit_on_invalid:
  assumes "invocationSource ev = ''DialogCodeHook''"
    and "slots_present ev"
    and "get_slots ev ''age'' = Some age"
    and "get_slots ev ''investmentAmount'' = Some investment_amount"
    and "\<not> isValid (validate_data age investment_amount ev)"
  shows "\<exists>v m s'.
           violatedSlot (validate_data age investment_amount ev) = Some v
         \<and> message (validate_data age investment_amount ev) = Some m
         \<and> recommend_portfolio ev =
             Inr [''sessionAttributes'' \<mapsto> JAttrs (sessionAttributes ev),
                  ''dialogAction'' \<mapsto>
                    JObj [''type'' \<mapsto> JStr ''ElicitSlot'',
                          ''intentName'' \<mapsto> JStr (name (currentIntent ev)),
                          ''slots'' \<mapsto> JSlots s',
                          ''slotToElicit'' \<mapsto> JStr v,
                          ''message'' \<mapsto> m]]
         \<and> s' v = Some None
         \<and> (\<forall>k. k \<noteq> v \<longrightarrow> s' k = slots (currentIntent ev) k)"
proof -
  from assms(2) obtain f r where
    sl: "get_slots ev ''firstName'' = Some f" "get_slots ev ''riskLevel'' = Some r"
    by (rule slots_presentD)
  let ?vr = "validate_data age investment_amount ev"
  have shape: "\<exists>v m. ?vr = \<lparr>isValid = False, violatedSlot = Some v, message = Some m\<rparr>"
  proof (cases "passes_age_rules age")
    case False
    then obtain a where a: "age = Some a" by (cases age) (simp_all add: passes_age_rules_def)
    show ?thesis
    proof (cases "num_lt (parse_int a) 0")
      case True
      from validate_data_age_low [OF True] a show ?thesis by blast
    next
      case lt: False
      with False a have "num_gt (parse_int a) 65" by (simp add: passes_age_rules_def)
      from validate_data_age_high [OF lt this] a show ?thesis by blast
    qed
  next
    case True
    with assms(5) have "\<not> passes_amount_rule investment_amount"
      by (simp add: validate_data_isValid)
    then obtain i where i: "investment_amount = Some i" "num_le (parse_int i) 4999"
      by (cases investment_amount) (simp_all add: passes_amount_rule_def)
    from validate_data_amount_low [OF True i(2)] i(1) show ?thesis by blast
  qed
  then obtain v m where vr: "?vr = \<lparr>isValid = False, violatedSlot = Some v, message = Some m\<rparr>"
    by blast
  from recommend_portfolio_invalid [OF assms(1) sl(1) assms(3) assms(4) sl(2) vr]
  have rp: "recommend_portfolio ev =
     Inr [''sessionAttributes'' \<mapsto> JAttrs (sessionAttributes ev),
          ''dialogAction'' \<mapsto>
            JObj [''type'' \<mapsto> JStr ''ElicitSlot'',
                  ''intentName'' \<mapsto> JStr (name (currentIntent ev)),
                  ''slots'' \<mapsto> JSlots ((get_slots ev)(v \<mapsto> None)),
                  ''slotToElicit'' \<mapsto> JStr v,
                  ''message'' \<mapsto> m]]" .
  have fr: "((get_slots ev)(v \<mapsto> None)) v = Some None"
    "\<forall>k. k \<noteq> v \<longrightarrow> ((get_slots ev)(v \<mapsto> None)) k = slots (currentIntent ev) k"
    by (simp_all add: get_slots_def)
  from vr have "violatedSlot ?vr = Some v" "message ?vr = Some m" by simp_all
  with rp fr show ?thesis by blast
qed
theorem elicit_on_invalid_witness:
  "\<exists>s'. recommend_portfolio
          (request ''DialogCodeHook'' (four_slots (Some ''70'') (Some ''100'') None)) =
          Inr [''sessionAttributes'' \<mapsto> JAttrs [''channel'' \<mapsto> ''web''],
               ''dialogAction'' \<mapsto>
                 JObj [''type'' \<mapsto> JStr ''ElicitSlot'',
                       ''intentName'' \<mapsto> JStr ''recommendPortfolio'',
                       ''slots'' \<mapsto> JSlots s',
                       ''slotToElicit'' \<mapsto> JStr ''age'',
                       ''message'' \<mapsto> plain_text retirement_message]]
      \<and> s' ''age'' = Some None
      \<and> s' ''firstName'' = Some (Some ''Ann'')
      \<and> s' ''investmentAmount'' = Some (Some ''100'')
      \<and> s' ''riskLevel'' = Some None"
proof -
  let ?ev = "request ''DialogCodeHook'' (four_slots (Some ''70'') (Some ''100'') None)"
  let ?vr = "validate_data (Some ''70'') (Some ''100'') ?ev"
  have vr: "?vr = \<lparr>isValid = False, violatedSlot = Some ''age'',
                   message = Some (plain_text retirement_message)\<rparr>"
    by (simp add: validate_data_def build_validation_result_def parse_simps)
  then have nv: "\<not> isValid ?vr" by simp
  from elicit_on_invalid [of ?ev "Some ''70''" "Some ''100''", OF _ _ _ _ nv]
  obtain v m s' where
    "violatedSlot ?vr = Some v" "message ?vr = Some m"
    "recommend_portfolio ?ev =
       Inr [''sessionAttributes'' \<mapsto> JAttrs [''channel'' \<mapsto> ''web''],
            ''dialogAction'' \<mapsto>
              JObj [''type'' \<mapsto> JStr ''ElicitSlot'',
                    ''intentName'' \<mapsto> JStr ''recommendPortfolio'',
                    ''slots'' \<mapsto> JSlots s',
                    ''slotToElicit'' \<mapsto> JStr v,
                    ''message'' \<mapsto> m]]"
    "s' v = Some None" "\<forall>k. k \<noteq> v \<longrightarrow> s' k = four_slots (Some ''70'') (Some ''100'') None k"
    by (auto simp: request_simps slots_present_four_slots four_slots_simps)
  moreover from this(1,2) vr have "v = ''age''" "m = plain_text retirement_message"
    by simp_all
  ultimately show ?thesis
    by (intro exI [of _ s']) (simp add: four_slots_simps)
qed

subsection \<open>Order of the rules\<close>

text \<open>
  C6. The rules are decided in a fixed order and the first violation wins. An age below 0
  gives the invalid-age result and an age above 65 the retirement result, whatever the
  investment amount is; only when the age passes its rules is the amount looked at, and
  then an amount of at most 4999 gives the minimum-amount result and anything else the
  valid result. In particular, whenever both slots violate their rules the result reports
  \<open>age\<close>. Exactly one violation is ever reported: every validation result is the valid
  result, with no violated slot, or one of three invalid results, each naming a single slot.
\<close>

theorem first_violation_wins:
  "(\<forall>a. age = Some a \<and> num_lt (parse_int a) 0 \<longrightarrow>
       validate_data age investment_amount ev =
         \<lparr>isValid = False, violatedSlot = Some ''age'',
          message = Some (plain_text invalid_age_message)\<rparr>)
   \<and> (\<forall>a. age = Some a \<and> num_gt (parse_int a) 65 \<longrightarrow>
       validate_data age investment_amount ev =
         \<lparr>isValid = False, violatedSlot = Some ''age'',
          message = Some (plain_text retirement_message)\<rparr>)
   \<and> (passes_age_rules age \<and> \<not> passes_amount_rule investment_amount \<longrightarrow>
       validate_data age investment_amount ev =
         \<lparr>isValid = False, violatedSlot = Some ''investmentAmount'',
          message = Some (plain_text minimum_amount_message)\<rparr>)
   \<and> (passes_age_rules age \<and> passes_amount_rule investment_amount \<longrightarrow>
       validate_data age investment_amount ev =
         \<lparr>isValid = True, violatedSlot = None, message = None\<rparr>)
   \<and> (\<not> passes_age_rules age \<longleftrightarrow>
        (\<exists>a. age = Some a \<and> (num_lt (parse_int a) 0 \<or> num_gt (parse_int a) 65)))
   \<and> (\<not> passes_age_rules age \<and> \<not> passes_amount_rule investment_amount \<longrightarrow>
       \<not> isValid (validate_data age investment_amount ev)
     \<and> violatedSlot (validate_data age investment_amount ev) = Some ''age'')
   \<and> (validate_data age investment_amount ev =
         \<lparr>isValid = True, violatedSlot = None, message = None\<rparr>
      \<or> validate_data age investment_amount ev =
         \<lparr>isValid = False, violatedSlot = Some ''age'',
          message = Some (plain_text invalid_age_message)\<rparr>
      \<or> validate_data age investment_amount ev =
         \<lparr>isValid = False, violatedSlot = Some ''age'',
          message = Some (plain_text retirement_message)\<rparr>
      \<or> validate_data age investment_amount ev =
         \<lparr>isValid = False, violatedSlot = Some ''investmentAmount'',
          message = Some (plain_text minimum_amount_message)\<rparr>)"
proof -
  let ?r = "validate_data age investment_amount ev"
  have low: "?r = \<lparr>isValid = False, violatedSlot = Some ''age'',
                    message = Some (plain_text invalid_age_message)\<rparr>"
    if "age = Some a" "num_lt (parse_int a) 0" for a
    using that validate_data_age_low [of a investment_amount ev] by simp
  have high: "?r = \<lparr>isValid = False, violatedSlot = Some ''age'',
                     message = Some (plain_text retirement_message)\<rparr>"
    if "age = Some a" "num_gt (parse_int a) 65" for a
  proof -
    from that(2) have "\<not> num_lt (parse_int a) 0" by (cases "parse_int a") simp_all
    from validate_data_age_high [OF this that(2), of investment_amount ev] that(1)
    show ?thesis by simp
  qed
  have amt: "?r = \<lparr>isValid = False, violatedSlot = Some ''investmentAmount'',
                    message = Some (plain_text minimum_amount_message)\<rparr>"
    if "passes_age_rules age" "\<not> passes_amount_rule investment_amount"
  proof -
    from that(2) obtain i where "investment_amount = Some i" "num_le (parse_int i) 4999"
      by (cases investment_amount) (simp_all add: passes_amount_rule_def)
    with validate_data_amount_low [OF that(1) this(2), of ev] show ?thesis by simp
  qed
  have ok: "?r = \<lparr>isValid = True, violatedSlot = None, message = None\<rparr>"
    if "passes_age_rules age" "passes_amount_rule investment_amount"
    using that by (rule validate_data_valid)
  have viol: "\<not> passes_age_rules age \<longleftrightarrow>
        (\<exists>a. age = Some a \<and> (num_lt (parse_int a) 0 \<or> num_gt (parse_int a) 65))"
    by (cases age) (simp_all add: passes_age_rules_def)
  have both: "\<not> isValid ?r \<and> violatedSlot ?r = Some ''age''"
    if "\<not> passes_age_rules age"
  proof -
    from that viol obtain a where a: "age = Some a"
      and c: "num_lt (parse_int a) 0 \<or> num_gt (parse_int a) 65"
      by auto
    from c show ?thesis
    proof
      assume "num_lt (parse_int a) 0"
      from low [OF a this] show ?thesis by simp
    next
      assume "num_gt (parse_int a) 65"
      from high [OF a this] show ?thesis by simp
    qed
  qed
  have shapes: "?r = \<lparr>isValid = True, violatedSlot = None, message = None\<rparr>
      \<or> ?r = \<lparr>isValid = False, violatedSlot = Some ''age'',
               message = Some (plain_text invalid_age_message)\<rparr>
      \<or> ?r = \<lparr>isValid = False, violatedSlot = Some ''age'',
               message = Some (plain_text retirement_message)\<rparr>
      \<or> ?r = \<lparr>isValid = False, violatedSlot = Some ''investmentAmount'',
               message = Some (plain_text minimum_amount_message)\<rparr>"
  proof (cases "passes_age_rules age")
    case True
    then show ?thesis using amt ok by (cases "passes_amount_rule investment_amount") simp_all
  next
    case False
    with viol obtain a where a: "age = Some a"
      and c: "num_lt (parse_int a) 0 \<or> num_gt (parse_int a) 65"
      by auto
    from c show ?thesis
    proof
      assume "num_lt (parse_int a) 0"
      from low [OF a this] show ?thesis by simp
    next
      assume "num_gt (parse_int a) 65"
      from high [OF a this] show ?thesis by simp
    qed
  qed
  show ?thesis
  proof (intro conjI allI impI)
    fix a assume "age = Some a \<and> num_lt (parse_int a) 0"
    then show "?r = \<lparr>isValid = False, violatedSlot = Some ''age'',
                      message = Some (plain_text invalid_age_message)\<rparr>"
      using low by simp
  next
    fix a assume "age = Some a \<and> num_gt (parse_int a) 65"
    then show "?r = \<lparr>isValid = False, violatedSlot = Some ''age'',
                      message = Some (plain_text retirement_message)\<rparr>"
      using high by simp
  next
    assume "passes_age_rules age \<and> \<not> passes_amount_rule investment_amount"
    then show "?r = \<lparr>isValid = False, violatedSlot = Some ''investmentAmount'',
                      message = Some (plain_text minimum_amount_message)\<rparr>"
      using amt by simp
  next
    assume "passes_age_rules age \<and> passes_amount_rule investment_amount"
    then show "?r = \<lparr>isValid = True, violatedSlot = None, message = None\<rparr>"
      using ok by simp
  next
    show "\<not> passes_age_rules age \<longleftrightarrow>
        (\<exists>a. age = Some a \<and> (num_lt (parse_int a) 0 \<or> num_gt (parse_int a) 65))"
      by (rule viol)
  next
    assume "\<not> passes_age_rules age \<and> \<not> passes_amount_rule investment_amount"
    then show "\<not> isValid ?r" using both by simp
  next
    assume "\<not> passes_age_rules age \<and> \<not> passes_amount_rule investment_amount"
    then show "violatedSlot ?r = Some ''age''" using both by simp
  next
    show "?r = \<lparr>isValid = True, violatedSlot = None, message = None\<rparr>
      \<or> ?r = \<lparr>isValid = False, violatedSlot = Some ''age'',
               message = Some (plain_text invalid_age_message)\<rparr>
      \<or> ?r = \<lparr>isValid = False, violatedSlot = Some ''age'',
               message = Some (plain_text retirement_message)\<rparr>
      \<or> ?r = \<lparr>isValid = False, violatedSlot = Some ''investmentAmount'',
               message = Some (plain_text minimum_amount_message)\<rparr>"
      by (rule shapes)
  qed
qed

theorem first_violation_wins_witness:
  "validate_data (Some ''-5'') (Some ''100'') (request ''DialogCodeHook'' Map.empty) =
     \<lparr>isValid = False, violatedSlot = Some ''age'',
      message = Some (plain_text invalid_age_message)\<rparr>
   \<and> validate_data (Some ''70'') (Some ''100'') (request ''DialogCodeHook'' Map.empty) =
     \<lparr>isValid = False, violatedSlot = Some ''age'',
      message = Some (plain_text retirement_message)\<rparr>
   \<and> validate_data (Some ''30'') (Some ''100'') (request ''DialogCodeHook'' Map.empty) =
     \<lparr>isValid = False, violatedSlot = Some ''investmentAmount'',
      message = Some (plain_text minimum_amount_message)\<rparr>
   \<and> validate_data (Some ''30'') (Some ''5000'') (request ''DialogCodeHook'' Map.empty) =
     \<lparr>isValid = True, violatedSlot = None, message = None\<rparr>
   \<and> validate_data None (Some ''100'') (request ''DialogCodeHook'' Map.empty) =
     \<lparr>isValid = False, violatedSlot = Some ''investmentAmount'',
      message = Some (plain_text minimum_amount_message)\<rparr>"
proof -
  have p: "parse_int ''-5'' = IntV (-5)" "parse_int ''70'' = IntV 70"
    "parse_int ''30'' = IntV 30" "parse_int ''100'' = IntV 100"
    "parse_int ''5000'' = IntV 5000"
    by (simp_all add: parse_simps)
  show ?thesis
    using
      first_violation_wins [of "Some ''-5''" "Some ''100''" "request ''DialogCodeHook'' Map.empty"]
      first_violation_wins [of "Some ''70''" "Some ''100''" "request ''DialogCodeHook'' Map.empty"]
      first_violation_wins [of "Some ''30''" "Some ''100''" "request ''DialogCodeHook'' Map.empty"]
      first_violation_wins [of "Some ''30''" "Some ''5000''" "request ''DialogCodeHook'' Map.empty"]
      first_violation_wins [of None "Some ''100''" "request ''DialogCodeHook'' Map.empty"]
    by (simp add: p passes_age_rules_def passes_amount_rule_def)
qed

subsection \<open>Slot values that are not integers\<close>

lemma py_int_over_limit:
  assumes "is_digit c" and "int_max_str_digits < n"
  shows "py_int (replicate n c) = None"
proof -
  from assms(1) have ns: "\<not> is_space c"
    by (simp add: is_digit_def is_space_def Let_def)
  from assms(1) have nm: "c \<noteq> CHR ''-''" and np: "c \<noteq> CHR ''+''"
    by (auto simp: is_digit_def Let_def)
  from assms(2) obtain m where n: "n = Suc m" by (cases n) simp_all
  have r: "rev (replicate n c) = replicate n c" by simp
  from ns have d: "dropWhile is_space (replicate n c) = replicate n c"
    by (simp add: n)
  have st: "strip (replicate n c) = c # replicate m c"
    by (simp only: strip_def d r) (simp add: n)
  from assms(1) have "length (filter is_digit (c # replicate m c)) = n"
    by (simp add: n)
  with assms(2) have "digit_string (c # replicate m c) = None"
    by (simp only: digit_string_def if_True)
  with st nm np show ?thesis
    by (simp add: py_int_def)
qed

lemma py_int_long_digit_string: "py_int long_digit_string = None"
  unfolding long_digit_string_def
  by (rule py_int_over_limit) (simp_all add: is_digit_def int_max_str_digits_def)

text \<open>
  C7. A slot value \<open>s\<close> that is a string on which \<open>int\<close> raises \<open>ValueError\<close> does not make
  validation fail or raise: \<open>parse_int\<close> returns the not-a-number value, every comparison
  with it is false, so \<open>s\<close> passes the age rules and the amount rule alike. In the
  validation stage, for a request that carries the four slots of the intent, if such an
  \<open>s\<close> is the age and the investment amount passes its rule, or such an \<open>s\<close> is the investment
  amount and the age passes its rules, the handler returns the Delegate response.
\<close>

theorem unparseable_slot_is_valid:
  assumes "invocationSource ev = ''DialogCodeHook''"
    and "slots_present ev"
    and "py_int s = None"
  shows "parse_int s = NaN
       \<and> (\<forall>k. \<not> num_lt (parse_int s) k \<and> \<not> num_gt (parse_int s) k \<and> \<not> num_le (parse_int s) k)
       \<and> (get_slots ev ''age'' = Some (Some s)
            \<and> get_slots ev ''investmentAmount'' = Some investment_amount
            \<and> passes_amount_rule investment_amount \<longrightarrow>
          recommend_portfolio ev =
            Inr [''sessionAttributes'' \<mapsto> JAttrs (sessionAttributes ev),
                 ''dialogAction'' \<mapsto>
                   JObj [''type'' \<mapsto> JStr ''Delegate'',
                         ''slots'' \<mapsto> JSlots (slots (currentIntent ev))]])
       \<and> (get_slots ev ''investmentAmount'' = Some (Some s)
            \<and> get_slots ev ''age'' = Some age
            \<and> passes_age_rules age \<longrightarrow>
          recommend_portfolio ev =
            Inr [''sessionAttributes'' \<mapsto> JAttrs (sessionAttributes ev),
                 ''dialogAction'' \<mapsto>
                   JObj [''type'' \<mapsto> JStr ''Delegate'',
                         ''slots'' \<mapsto> JSlots (slots (currentIntent ev))]])"
proof -
  from assms(2) obtain f r where
    sl: "get_slots ev ''firstName'' = Some f" "get_slots ev ''riskLevel'' = Some r"
    by (rule slots_presentD)
  from assms(3) have nan: "parse_int s = NaN" by (simp add: parse_int_def)
  then have ok: "passes_age_rules (Some s)" "passes_amount_rule (Some s)"
    by (simp_all add: passes_age_rules_def passes_amount_rule_def)
  have deleg: "recommend_portfolio ev =
            Inr [''sessionAttributes'' \<mapsto> JAttrs (sessionAttributes ev),
                 ''dialogAction'' \<mapsto>
                   JObj [''type'' \<mapsto> JStr ''Delegate'',
                         ''slots'' \<mapsto> JSlots (slots (currentIntent ev))]]"
    if "get_slots ev ''age'' = Some a" "get_slots ev ''investmentAmount'' = Some i"
      "passes_age_rules a" "passes_amount_rule i" for a i
  proof -
    from that(3,4) have "isValid (validate_data a i ev)" by (simp add: validate_data_isValid)
    from recommend_portfolio_valid [OF assms(1) sl(1) that(1,2) sl(2) this]
    show ?thesis by (simp add: get_slots_def)
  qed
  from nan have cmp: "\<forall>k. \<not> num_lt (parse_int s) k \<and> \<not> num_gt (parse_int s) k \<and> \<not> num_le (parse_int s) k"
    by simp
  from nan cmp deleg [of "Some s" investment_amount] deleg [of age "Some s"] ok
  show ?thesis by blast
qed

theorem unparseable_slot_is_valid_witness:
  "py_int ''abc'' = None \<and> py_int ''12.5'' = None \<and> py_int long_digit_string = None
   \<and> parse_int ''abc'' = NaN
   \<and> recommend_portfolio
       (request ''DialogCodeHook'' (four_slots (Some ''abc'') (Some ''5000'') None)) =
       Inr [''sessionAttributes'' \<mapsto> JAttrs [''channel'' \<mapsto> ''web''],
            ''dialogAction'' \<mapsto>
              JObj [''type'' \<mapsto> JStr ''Delegate'',
                    ''slots'' \<mapsto> JSlots (four_slots (Some ''abc'') (Some ''5000'') None)]]
   \<and> recommend_portfolio
       (request ''DialogCodeHook'' (four_slots (Some ''30'') (Some ''12.5'') None)) =
       Inr [''sessionAttributes'' \<mapsto> JAttrs [''channel'' \<mapsto> ''web''],
            ''dialogAction'' \<mapsto>
              JObj [''type'' \<mapsto> JStr ''Delegate'',
                    ''slots'' \<mapsto> JSlots (four_slots (Some ''30'') (Some ''12.5'') None)]]
   \<and> recommend_portfolio
       (request ''DialogCodeHook'' (four_slots (Some long_digit_string) (Some ''5000'') None)) =
       Inr [''sessionAttributes'' \<mapsto> JAttrs [''channel'' \<mapsto> ''web''],
            ''dialogAction'' \<mapsto>
              JObj [''type'' \<mapsto> JStr ''Delegate'',
                    ''slots'' \<mapsto>
                      JSlots (four_slots (Some long_digit_string) (Some ''5000'') None)]]"
proof -
  have p: "py_int ''abc'' = None" "py_int ''12.5'' = None"
    "passes_amount_rule (Some ''5000'')" "passes_age_rules (Some ''30'')"
    by (simp_all add: parse_simps passes_age_rules_def passes_amount_rule_def)
  show ?thesis
    using
      unparseable_slot_is_valid
        [of "request ''DialogCodeHook'' (four_slots (Some ''abc'') (Some ''5000'') None)"
            "''abc''" "Some ''5000''" None]
      unparseable_slot_is_valid
        [of "request ''DialogCodeHook'' (four_slots (Some ''30'') (Some ''12.5'') None)"
            "''12.5''" None "Some ''30''"]
      unparseable_slot_is_valid
        [of "request ''DialogCodeHook'' (four_slots (Some long_digit_string) (Some ''5000'') None)"
            long_digit_string "Some ''5000''" None]
      p py_int_long_digit_string
    by (simp add: request_simps slots_present_four_slots four_slots_simps)
qed

subsection \<open>Further auxiliary facts\<close>

lemma validate_data_results:
  "validate_data age investment_amount ev =
     \<lparr>isValid = True, violatedSlot = None, message = None\<rparr>
   \<or> (\<exists>v m. validate_data age investment_amount ev =
        \<lparr>isValid = False, violatedSlot = Some v, message = Some m\<rparr>)"
proof (cases "passes_age_rules age")
  case True
  show ?thesis
  proof (cases "passes_amount_rule investment_amount")
    case amt: True
    from validate_data_valid [OF True amt] show ?thesis by simp
  next
    case False
    then obtain i where "investment_amount = Some i" "num_le (parse_int i) 4999"
      by (cases investment_amount) (simp_all add: passes_amount_rule_def)
    with validate_data_amount_low [OF True this(2)] show ?thesis by simp
  qed
next
  case False
  then obtain a where a: "age = Some a" by (cases age) (simp_all add: passes_age_rules_def)
  show ?thesis
  proof (cases "num_lt (parse_int a) 0")
    case True
    from validate_data_age_low [OF True] a show ?thesis by simp
  next
    case lt: False
    with False a have "num_gt (parse_int a) 65" by (simp add: passes_age_rules_def)
    from validate_data_age_high [OF lt this] a show ?thesis by simp
  qed
qed

lemma recommend_portfolio_fulfillment:
  assumes "invocationSource ev \<noteq> ''DialogCodeHook''"
    and "get_slots ev ''firstName'' = Some f" and "get_slots ev ''age'' = Some a"
    and "get_slots ev ''investmentAmount'' = Some i" and "get_slots ev ''riskLevel'' = Some rk"
  shows "recommend_portfolio ev =
     (case rk of
        None \<Rightarrow> Inl AttributeError
      | Some rl \<Rightarrow>
          (case get_risks (lower rl) of
             Inl e \<Rightarrow> Inl e
           | Inr desired_risk \<Rightarrow>
               Inr (close (sessionAttributes ev) ''Fulfilled''
                      (plain_text
                         (''For a '' @ rl @ ''-risk portfolio, invest in '' @ desired_risk)))))"
  using assms by (simp add: recommend_portfolio_def get_item_def)

lemma recommend_portfolio_missing:
  assumes "\<not> slots_present ev"
  shows "\<exists>k. k \<in> {''firstName'', ''age'', ''investmentAmount'', ''riskLevel''}
          \<and> get_slots ev k = None
          \<and> recommend_portfolio ev = Inl (KeyError k)"
proof (cases "get_slots ev ''firstName''")
  case None
  then have "recommend_portfolio ev = Inl (KeyError ''firstName'')"
    by (simp add: recommend_portfolio_def get_item_def)
  with None show ?thesis by blast
next
  case f: (Some f)
  show ?thesis
  proof (cases "get_slots ev ''age''")
    case None
    with f have "recommend_portfolio ev = Inl (KeyError ''age'')"
      by (simp add: recommend_portfolio_def get_item_def)
    with None show ?thesis by blast
  next
    case a: (Some a)
    show ?thesis
    proof (cases "get_slots ev ''investmentAmount''")
      case None
      with f a have "recommend_portfolio ev = Inl (KeyError ''investmentAmount'')"
        by (simp add: recommend_portfolio_def get_item_def)
      with None show ?thesis by blast
    next
      case i: (Some i)
      show ?thesis
      proof (cases "get_slots ev ''riskLevel''")
        case None
        with f a i have "recommend_portfolio ev = Inl (KeyError ''riskLevel'')"
          by (simp add: recommend_portfolio_def get_item_def)
        with None show ?thesis by blast
      next
        case (Some r)
        with f a i have "slots_present ev" by (auto simp: slots_present_def)
        with assms show ?thesis by simp
      qed
    qed
  qed
qed

subsection \<open>Fulfillment: the risk catalog\<close>

text \<open>
  C3. In the fulfillment stage (\<open>invocationSource\<close> other than \<open>"DialogCodeHook"\<close>), for a
  request that carries the four slots of the intent and whose riskLevel slot is the string
  \<open>rl\<close>: if \<open>rl\<close> lowercases to one of the keys \<open>none\<close>, \<open>low\<close>, \<open>medium\<close>, \<open>high\<close>, the
  handler returns the Close response with fulfillment state \<open>Fulfilled\<close> and a PlainText
  message whose content ends with, and so contains, the allocation string of that key
  (for \<open>low\<close>: 60% bonds (AGG), 40% equities (SPY)); if \<open>rl\<close> lowercases to anything
  else, the lookup raises \<open>KeyError\<close> on the lowercased value and nothing is returned.
\<close>

theorem fulfillment_risk_lookup:
  assumes "invocationSource ev \<noteq> ''DialogCodeHook''"
    and "slots_present ev"
    and "get_slots ev ''riskLevel'' = Some (Some rl)"
  shows "(lower rl \<in> {''none'', ''low'', ''medium'', ''high''} \<longrightarrow>
            (\<exists>allocation content.
                risk_levels (lower rl) = Some allocation
              \<and> recommend_portfolio ev =
                  Inr [''sessionAttributes'' \<mapsto> JAttrs (sessionAttributes ev),
                       ''dialogAction'' \<mapsto>
                         JObj [''type'' \<mapsto> JStr ''Close'',
                               ''fulfillmentState'' \<mapsto> JStr ''Fulfilled'',
                               ''message'' \<mapsto>
                                 JObj [''contentType'' \<mapsto> JStr ''PlainText'',
                                       ''content'' \<mapsto> JStr content]]]
              \<and> content = ''For a '' @ rl @ ''-risk portfolio, invest in '' @ allocation
              \<and> sublist allocation content))
       \<and> risk_levels ''none'' = Some ''100% bonds (AGG), 0% equities (SPY)''
       \<and> risk_levels ''low'' = Some ''60% bonds (AGG), 40% equities (SPY)''
       \<and> risk_levels ''medium'' = Some ''40% bonds (AGG), 60% equities (SPY)''
       \<and> risk_levels ''high'' = Some ''20% bonds (AGG), 80% equities (SPY)''
       \<and> (lower rl \<notin> {''none'', ''low'', ''medium'', ''high''} \<longrightarrow>
            recommend_portfolio ev = Inl (KeyError (lower rl)))"
proof -
  from assms(2) obtain f a i where
    sl: "get_slots ev ''firstName'' = Some f" "get_slots ev ''age'' = Some a"
      "get_slots ev ''investmentAmount'' = Some i"
    by (rule slots_presentD)
  have dom_rl: "dom risk_levels = {''none'', ''low'', ''medium'', ''high''}"
    by (auto simp: risk_levels_def)
  have hit: "recommend_portfolio ev =
      Inr [''sessionAttributes'' \<mapsto> JAttrs (sessionAttributes ev),
           ''dialogAction'' \<mapsto>
             JObj [''type'' \<mapsto> JStr ''Close'',
                   ''fulfillmentState'' \<mapsto> JStr ''Fulfilled'',
                   ''message'' \<mapsto>
                     JObj [''contentType'' \<mapsto> JStr ''PlainText'',
                           ''content'' \<mapsto>
                             JStr (''For a '' @ rl @ ''-risk portfolio, invest in '' @ allocation)]]]"
    if "risk_levels (lower rl) = Some allocation" for allocation
    using assms(1,3) sl that
    by (simp add: recommend_portfolio_def get_item_def get_risks_def close_def plain_text_def)
  have miss: "recommend_portfolio ev = Inl (KeyError (lower rl))"
    if "risk_levels (lower rl) = None"
    using assms(1,3) sl that
    by (simp add: recommend_portfolio_def get_item_def get_risks_def)
  have sub: "sublist allocation (''For a '' @ rl @ ''-risk portfolio, invest in '' @ allocation)"
    for allocation :: string
    by (metis append.assoc sublist_appendI append_Nil2)
  have c1: "lower rl \<in> {''none'', ''low'', ''medium'', ''high''} \<longrightarrow>
            (\<exists>allocation content.
                risk_levels (lower rl) = Some allocation
              \<and> recommend_portfolio ev =
                  Inr [''sessionAttributes'' \<mapsto> JAttrs (sessionAttributes ev),
                       ''dialogAction'' \<mapsto>
                         JObj [''type'' \<mapsto> JStr ''Close'',
                               ''fulfillmentState'' \<mapsto> JStr ''Fulfilled'',
                               ''message'' \<mapsto>
                                 JObj [''contentType'' \<mapsto> JStr ''PlainText'',
                                       ''content'' \<mapsto> JStr content]]]
              \<and> content = ''For a '' @ rl @ ''-risk portfolio, invest in '' @ allocation
              \<and> sublist allocation content)"
  proof
    assume "lower rl \<in> {''none'', ''low'', ''medium'', ''high''}"
    with dom_rl have "lower rl \<in> dom risk_levels" by simp
    then obtain allocation where al: "risk_levels (lower rl) = Some allocation" by blast
    from al hit [OF al] sub [of allocation] show "\<exists>allocation content.
                risk_levels (lower rl) = Some allocation
              \<and> recommend_portfolio ev =
                  Inr [''sessionAttributes'' \<mapsto> JAttrs (sessionAttributes ev),
                       ''dialogAction'' \<mapsto>
                         JObj [''type'' \<mapsto> JStr ''Close'',
                               ''fulfillmentState'' \<mapsto> JStr ''Fulfilled'',
                               ''message'' \<mapsto>
                                 JObj [''contentType'' \<mapsto> JStr ''PlainText'',
                                       ''content'' \<mapsto> JStr content]]]
              \<and> content = ''For a '' @ rl @ ''-risk portfolio, invest in '' @ allocation
              \<and> sublist allocation content" by blast
  qed
  have c2: "lower rl \<notin> {''none'', ''low'', ''medium'', ''high''} \<longrightarrow>
            recommend_portfolio ev = Inl (KeyError (lower rl))"
  proof
    assume "lower rl \<notin> {''none'', ''low'', ''medium'', ''high''}"
    with dom_rl have "risk_levels (lower rl) = None" by blast
    from miss [OF this] show "recommend_portfolio ev = Inl (KeyError (lower rl))" .
  qed
  have tab: "risk_levels ''none'' = Some ''100% bonds (AGG), 0% equities (SPY)''"
    "risk_levels ''low'' = Some ''60% bonds (AGG), 40% equities (SPY)''"
    "risk_levels ''medium'' = Some ''40% bonds (AGG), 60% equities (SPY)''"
    "risk_levels ''high'' = Some ''20% bonds (AGG), 80% equities (SPY)''"
    by (simp_all add: risk_levels_def)
  from c1 c2 tab show ?thesis by blast
qed

theorem fulfillment_risk_lookup_witness:
  "lower ''Low'' = ''low''
   \<and> recommend_portfolio
       (request ''FulfillmentCodeHook'' (four_slots (Some ''30'') (Some ''5000'') (Some ''Low''))) =
       Inr [''sessionAttributes'' \<mapsto> JAttrs [''channel'' \<mapsto> ''web''],
            ''dialogAction'' \<mapsto>
              JObj [''type'' \<mapsto> JStr ''Close'',
                    ''fulfillmentState'' \<mapsto> JStr ''Fulfilled'',
                    ''message'' \<mapsto>
                      JObj [''contentType'' \<mapsto> JStr ''PlainText'',
                            ''content'' \<mapsto>
                              JStr ''For a Low-risk portfolio, invest in 60% bonds (AGG), 40% equities (SPY)'']]]
   \<and> recommend_portfolio
       (request ''FulfillmentCodeHook'' (four_slots None None (Some ''Extreme''))) =
       Inl (KeyError ''extreme'')"
proof -
  have lo: "lower ''Low'' = ''low''" "lower ''Extreme'' = ''extreme''"
    by (simp_all add: lower_def lower_char_def char_of_def bit_Suc_0_iff)
  show ?thesis
    using
      fulfillment_risk_lookup
        [of "request ''FulfillmentCodeHook'' (four_slots (Some ''30'') (Some ''5000'') (Some ''Low''))"
            "''Low''"]
      fulfillment_risk_lookup
        [of "request ''FulfillmentCodeHook'' (four_slots None None (Some ''Extreme''))"
            "''Extreme''"]
      lo
    by (auto simp: request_simps slots_present_four_slots four_slots_simps)
qed

subsection \<open>Dispatch by intent name\<close>

text \<open>
  C8. For every event whose intent name is not \<open>recommendPortfolio\<close>, dispatch (and with it
  the entry point) raises the unsupported-intent exception and returns no response; for the
  name \<open>recommendPortfolio\<close> it hands the event to \<open>recommend_portfolio\<close> and returns what
  that handler returns.
\<close>

theorem dispatch_by_intent_name:
  "(name (currentIntent ev) \<noteq> ''recommendPortfolio'' \<longrightarrow>
       dispatch ev =
         Inl (Exception (''Intent with name '' @ name (currentIntent ev) @ '' not supported''))
     \<and> lambda_handler ev context = dispatch ev
     \<and> (\<forall>r. dispatch ev \<noteq> Inr r))
   \<and> (name (currentIntent ev) = ''recommendPortfolio'' \<longrightarrow>
       dispatch ev = recommend_portfolio ev
     \<and> lambda_handler ev context = recommend_portfolio ev)"
  by (simp add: dispatch_def lambda_handler_def)

theorem dispatch_by_intent_name_witness:
  "dispatch \<lparr>currentIntent = \<lparr>name = ''orderPizza'', slots = four_slots None None None\<rparr>,
             invocationSource = ''DialogCodeHook'', sessionAttributes = Map.empty\<rparr> =
     Inl (Exception ''Intent with name orderPizza not supported'')
   \<and> dispatch (request ''DialogCodeHook'' (four_slots None None None)) =
       recommend_portfolio (request ''DialogCodeHook'' (four_slots None None None))"
  using
    dispatch_by_intent_name
      [of "\<lparr>currentIntent = \<lparr>name = ''orderPizza'', slots = four_slots None None None\<rparr>,
             invocationSource = ''DialogCodeHook'', sessionAttributes = Map.empty\<rparr>" "()"]
    dispatch_by_intent_name [of "request ''DialogCodeHook'' (four_slots None None None)" "()"]
  by (simp add: request_simps)

subsection \<open>Shape of the responses\<close>

lemma recommend_portfolio_builders:
  assumes "recommend_portfolio ev = Inr r"
  shows "(\<exists>sa n s v m. r = elicit_slot sa n s (Some v) m)
       \<or> (\<exists>sa s. r = delegate sa s)
       \<or> (\<exists>sa f m. r = close sa f m)"
proof -
  have "slots_present ev"
  proof (rule ccontr)
    assume "\<not> slots_present ev"
    from recommend_portfolio_missing [OF this] assms show False by auto
  qed
  then obtain f a i rk where
    sl: "get_slots ev ''firstName'' = Some f" "get_slots ev ''age'' = Some a"
      "get_slots ev ''investmentAmount'' = Some i" "get_slots ev ''riskLevel'' = Some rk"
    by (rule slots_presentD)
  show ?thesis
  proof (cases "invocationSource ev = ''DialogCodeHook''")
    case True
    show ?thesis
    proof (cases "isValid (validate_data a i ev)")
      case valid: True
      from recommend_portfolio_valid [OF True sl valid] assms
      have "r = delegate (sessionAttributes ev) (get_slots ev)"
        by (simp add: delegate_def)
      then show ?thesis by blast
    next
      case False
      from validate_data_results [of a i ev] False
      obtain v m where
        "validate_data a i ev = \<lparr>isValid = False, violatedSlot = Some v, message = Some m\<rparr>"
        by auto
      from recommend_portfolio_invalid [OF True sl this] assms
      have "r = elicit_slot (sessionAttributes ev) (name (currentIntent ev))
                  ((get_slots ev)(v \<mapsto> None)) (Some v) m"
        by (simp add: elicit_slot_def opt_str_def)
      then show ?thesis by blast
    qed
  next
    case False
    note ful = recommend_portfolio_fulfillment [OF False sl]
    show ?thesis
    proof (cases rk)
      case None
      with ful assms show ?thesis by simp
    next
      case (Some rl)
      show ?thesis
      proof (cases "get_risks (lower rl)")
        case (Inl e)
        with ful Some assms show ?thesis by simp
      next
        case (Inr d)
        with ful Some assms have "r = close (sessionAttributes ev) ''Fulfilled''
            (plain_text (''For a '' @ rl @ ''-risk portfolio, invest in '' @ d))"
          by simp
        then show ?thesis by blast
      qed
    qed
  qed
qed

lemma elicit_slot_shape:
  "dom (elicit_slot sa n s (Some v) m) = {''sessionAttributes'', ''dialogAction''}"
  "elicit_slot sa n s (Some v) m ''dialogAction'' =
     Some (JObj [''type'' \<mapsto> JStr ''ElicitSlot'', ''intentName'' \<mapsto> JStr n,
                 ''slots'' \<mapsto> JSlots s, ''slotToElicit'' \<mapsto> JStr v, ''message'' \<mapsto> m])"
  "dom [''type'' \<mapsto> JStr ''ElicitSlot'', ''intentName'' \<mapsto> JStr n,
        ''slots'' \<mapsto> JSlots s, ''slotToElicit'' \<mapsto> JStr v, ''message'' \<mapsto> m]
   = {''type'', ''intentName'', ''slots'', ''slotToElicit'', ''message''}"
  by (simp_all add: elicit_slot_def opt_str_def insert_commute)

lemma delegate_shape:
  "dom (delegate sa s) = {''sessionAttributes'', ''dialogAction''}"
  "delegate sa s ''dialogAction'' =
     Some (JObj [''type'' \<mapsto> JStr ''Delegate'', ''slots'' \<mapsto> JSlots s])"
  "dom [''type'' \<mapsto> JStr ''Delegate'', ''slots'' \<mapsto> JSlots s] = {''type'', ''slots''}"
  by (simp_all add: delegate_def insert_commute)

lemma close_shape:
  "dom (close sa f m) = {''sessionAttributes'', ''dialogAction''}"
  "close sa f m ''dialogAction'' =
     Some (JObj [''type'' \<mapsto> JStr ''Close'', ''fulfillmentState'' \<mapsto> JStr f,
                 ''message'' \<mapsto> m])"
  "dom [''type'' \<mapsto> JStr ''Close'', ''fulfillmentState'' \<mapsto> JStr f, ''message'' \<mapsto> m]
   = {''type'', ''fulfillmentState'', ''message''}"
  by (simp_all add: close_def insert_commute)


text \<open>
  C9. Every response the handler returns has exactly the two entries \<open>sessionAttributes\<close>
  and \<open>dialogAction\<close>, and its dialog action is exactly one of three variants, told apart by
  \<open>type\<close>: ElicitSlot, whose fields are \<open>type\<close>, \<open>intentName\<close>, \<open>slots\<close>, \<open>slotToElicit\<close> and
  \<open>message\<close>; Delegate, whose fields are \<open>type\<close> and \<open>slots\<close>; Close, whose fields are \<open>type\<close>,
  \<open>fulfillmentState\<close> and \<open>message\<close>. No field of another variant is present.
\<close>

theorem response_is_one_variant:
  assumes "lambda_handler ev context = Inr r"
  shows "dom r = {''sessionAttributes'', ''dialogAction''}
       \<and> (\<exists>da. r ''dialogAction'' = Some (JObj da)
            \<and> (da ''type'' = Some (JStr ''ElicitSlot'')
                 \<and> dom da = {''type'', ''intentName'', ''slots'', ''slotToElicit'', ''message''}
               \<or> da ''type'' = Some (JStr ''Delegate'')
                 \<and> dom da = {''type'', ''slots''}
               \<or> da ''type'' = Some (JStr ''Close'')
                 \<and> dom da = {''type'', ''fulfillmentState'', ''message''}))"
proof -
  from assms have "recommend_portfolio ev = Inr r"
    by (simp add: lambda_handler_def dispatch_def Let_def split: if_splits)
  from recommend_portfolio_builders [OF this]
  consider (elicit) sa n s v m where "r = elicit_slot sa n s (Some v) m"
    | (deleg) sa s where "r = delegate sa s"
    | (close) sa f m where "r = close sa f m"
    by blast
  then show ?thesis
  proof cases
    case elicit
    let ?da = "[''type'' \<mapsto> JStr ''ElicitSlot'', ''intentName'' \<mapsto> JStr n,
                ''slots'' \<mapsto> JSlots s, ''slotToElicit'' \<mapsto> JStr v, ''message'' \<mapsto> m]"
    have d: "dom r = {''sessionAttributes'', ''dialogAction''}"
      and a: "r ''dialogAction'' = Some (JObj ?da)"
      unfolding elicit by (rule elicit_slot_shape)+
    have t: "?da ''type'' = Some (JStr ''ElicitSlot'')" by simp
    have f: "dom ?da = {''type'', ''intentName'', ''slots'', ''slotToElicit'', ''message''}"
      by (rule elicit_slot_shape)
    show ?thesis
      by (rule conjI, rule d, rule exI [of _ ?da], rule conjI, rule a,
          rule disjI1, rule conjI, rule t, rule f)
  next
    case deleg
    let ?da = "[''type'' \<mapsto> JStr ''Delegate'', ''slots'' \<mapsto> JSlots s]"
    have d: "dom r = {''sessionAttributes'', ''dialogAction''}"
      and a: "r ''dialogAction'' = Some (JObj ?da)"
      unfolding deleg by (rule delegate_shape)+
    have t: "?da ''type'' = Some (JStr ''Delegate'')" by simp
    have f: "dom ?da = {''type'', ''slots''}"
      by (rule delegate_shape)
    show ?thesis
      by (rule conjI, rule d, rule exI [of _ ?da], rule conjI, rule a,
          rule disjI2, rule disjI1, rule conjI, rule t, rule f)
  next
    case close
    let ?da = "[''type'' \<mapsto> JStr ''Close'', ''fulfillmentState'' \<mapsto> JStr f,
                ''message'' \<mapsto> m]"
    have d: "dom r = {''sessionAttributes'', ''dialogAction''}"
      and a: "r ''dialogAction'' = Some (JObj ?da)"
      unfolding close by (rule close_shape)+
    have t: "?da ''type'' = Some (JStr ''Close'')" by simp
    have fl: "dom ?da = {''type'', ''fulfillmentState'', ''message''}"
      by (rule close_shape)
    show ?thesis
      by (rule conjI, rule d, rule exI [of _ ?da], rule conjI, rule a,
          rule disjI2, rule disjI2, rule conjI, rule t, rule fl)
  qed
qed

theorem response_is_one_variant_witness:
  "\<exists>r da. lambda_handler
           (request ''FulfillmentCodeHook'' (four_slots None None (Some ''high''))) () = Inr r
        \<and> dom r = {''sessionAttributes'', ''dialogAction''}
        \<and> r ''dialogAction'' = Some (JObj da)
        \<and> da ''type'' = Some (JStr ''Close'')
        \<and> dom da = {''type'', ''fulfillmentState'', ''message''}"
proof -
  let ?ev = "request ''FulfillmentCodeHook'' (four_slots None None (Some ''high''))"
  let ?r = "close [''channel'' \<mapsto> ''web''] ''Fulfilled''
              (plain_text ''For a high-risk portfolio, invest in 20% bonds (AGG), 80% equities (SPY)'')"
  have lo: "lower ''high'' = ''high''"
    by (simp add: lower_def lower_char_def)
  have run: "lambda_handler ?ev () = Inr ?r"
    by (simp add: lambda_handler_def dispatch_def recommend_portfolio_def get_item_def
        request_simps four_slots_simps get_risks_def risk_levels_def lo)
  note shape = response_is_one_variant [OF run]
  from shape have d: "dom ?r = {''sessionAttributes'', ''dialogAction''}"
    by (rule conjunct1)
  from shape have "\<exists>da. ?r ''dialogAction'' = Some (JObj da)
            \<and> (da ''type'' = Some (JStr ''ElicitSlot'')
                 \<and> dom da = {''type'', ''intentName'', ''slots'', ''slotToElicit'', ''message''}
               \<or> da ''type'' = Some (JStr ''Delegate'')
                 \<and> dom da = {''type'', ''slots''}
               \<or> da ''type'' = Some (JStr ''Close'')
                 \<and> dom da = {''type'', ''fulfillmentState'', ''message''})"
    by (rule conjunct2)
  then obtain da where a: "?r ''dialogAction'' = Some (JObj da)"
    and v: "da ''type'' = Some (JStr ''ElicitSlot'')
                 \<and> dom da = {''type'', ''intentName'', ''slots'', ''slotToElicit'', ''message''}
               \<or> da ''type'' = Some (JStr ''Delegate'')
                 \<and> dom da = {''type'', ''slots''}
               \<or> da ''type'' = Some (JStr ''Close'')
                 \<and> dom da = {''type'', ''fulfillmentState'', ''message''}"
    by (elim exE conjE)
  from a have t: "da ''type'' = Some (JStr ''Close'')"
    by (simp add: close_def) (erule subst, simp)
  from v have f: "dom da = {''type'', ''fulfillmentState'', ''message''}"
    unfolding t by simp
  show ?thesis
    by (rule exI [of _ ?r], rule exI [of _ da], rule conjI, rule run, rule conjI, rule d,
        rule conjI, rule a, rule conjI, rule t, rule f)
qed

subsection \<open>What the handler needs from the event\<close>

text \<open>
  C10. The handler returns a response only if the slots mapping of the event has all four
  keys \<open>firstName\<close>, \<open>age\<close>, \<open>investmentAmount\<close>, \<open>riskLevel\<close>: if one of them is absent,
  \<open>recommend_portfolio\<close> raises \<open>KeyError\<close> on an absent key and returns nothing, in
  either stage; this holds for \<open>firstName\<close> too, whose value the handler never looks at.
  In the fulfillment stage a riskLevel that is present with value null raises as well
  (\<open>lower\<close> of \<open>None\<close>), although slot values may be null.
\<close>

theorem handler_precondition:
  "(\<not> slots_present ev \<longrightarrow>
      (\<exists>k. k \<in> {''firstName'', ''age'', ''investmentAmount'', ''riskLevel''}
          \<and> get_slots ev k = None
          \<and> recommend_portfolio ev = Inl (KeyError k)))
   \<and> (get_slots ev ''firstName'' = None \<longrightarrow>
        recommend_portfolio ev = Inl (KeyError ''firstName''))
   \<and> (slots_present ev \<and> invocationSource ev \<noteq> ''DialogCodeHook''
        \<and> get_slots ev ''riskLevel'' = Some None \<longrightarrow>
        recommend_portfolio ev = Inl AttributeError)
   \<and> (\<forall>r. recommend_portfolio ev = Inr r \<longrightarrow>
        slots_present ev
        \<and> (invocationSource ev \<noteq> ''DialogCodeHook'' \<longrightarrow>
             (\<exists>rl. get_slots ev ''riskLevel'' = Some (Some rl))))"
proof (intro conjI impI allI)
  assume "\<not> slots_present ev"
  then show "\<exists>k. k \<in> {''firstName'', ''age'', ''investmentAmount'', ''riskLevel''}
          \<and> get_slots ev k = None
          \<and> recommend_portfolio ev = Inl (KeyError k)"
    by (rule recommend_portfolio_missing)
next
  assume "get_slots ev ''firstName'' = None"
  then show "recommend_portfolio ev = Inl (KeyError ''firstName'')"
    by (simp add: recommend_portfolio_def get_item_def)
next
  assume "slots_present ev \<and> invocationSource ev \<noteq> ''DialogCodeHook''
        \<and> get_slots ev ''riskLevel'' = Some None"
  then have sp: "slots_present ev" and src: "invocationSource ev \<noteq> ''DialogCodeHook''"
    and rk: "get_slots ev ''riskLevel'' = Some None"
    by simp_all
  from sp obtain f a i where "get_slots ev ''firstName'' = Some f"
    "get_slots ev ''age'' = Some a" "get_slots ev ''investmentAmount'' = Some i"
    by (rule slots_presentD)
  from recommend_portfolio_fulfillment [OF src this rk]
  show "recommend_portfolio ev = Inl AttributeError" by simp
next
  fix r
  assume "recommend_portfolio ev = Inr r"
  show "slots_present ev"
  proof (rule ccontr)
    assume "\<not> slots_present ev"
    from recommend_portfolio_missing [OF this] \<open>recommend_portfolio ev = Inr r\<close>
    show False by auto
  qed
next
  fix r
  assume ret: "recommend_portfolio ev = Inr r"
    and src: "invocationSource ev \<noteq> ''DialogCodeHook''"
  have "slots_present ev"
  proof (rule ccontr)
    assume "\<not> slots_present ev"
    from recommend_portfolio_missing [OF this] ret show False by auto
  qed
  then obtain f a i rk where sl: "get_slots ev ''firstName'' = Some f"
    "get_slots ev ''age'' = Some a" "get_slots ev ''investmentAmount'' = Some i"
    "get_slots ev ''riskLevel'' = Some rk"
    by (rule slots_presentD)
  from recommend_portfolio_fulfillment [OF src sl] ret
  obtain rl where "rk = Some rl" by (cases rk) simp_all
  with sl(4) show "\<exists>rl. get_slots ev ''riskLevel'' = Some (Some rl)" by simp
qed

theorem handler_precondition_witness:
  "recommend_portfolio
     (request ''DialogCodeHook'' [''age'' \<mapsto> Some ''-1'', ''investmentAmount'' \<mapsto> Some ''5000'',
                                  ''riskLevel'' \<mapsto> Some ''low'']) =
     Inl (KeyError ''firstName'')
   \<and> recommend_portfolio (request ''FulfillmentCodeHook'' (four_slots (Some ''30'') (Some ''5000'') None)) =
     Inl AttributeError"
  using
    handler_precondition
      [of "request ''DialogCodeHook'' [''age'' \<mapsto> Some ''-1'', ''investmentAmount'' \<mapsto> Some ''5000'',
                                  ''riskLevel'' \<mapsto> Some ''low'']"]
    handler_precondition
      [of "request ''FulfillmentCodeHook'' (four_slots (Some ''30'') (Some ''5000'') None)"]
  by (simp add: request_simps slots_present_four_slots four_slots_simps)

end
